theory Spec2Isabelle
  imports Complex_Main "HOL-Library.Sublist"
begin

section \<open>JavaScript values\<close>

text \<open>
  The plugin reads its settings from the deployment tool's configuration object, so the
  values it tests are untyped JavaScript values. A number is a finite rational or NaN
  (infinities and the rounding of doubles are not modelled); an object is the list of its
  own properties in insertion order, with distinct keys.
\<close>

datatype jsnum = Fin rat | NaN

datatype jsval =
    JUndefined
  | JNull
  | JBool bool
  | JNum jsnum
  | JStr string
  | JObject "(string \<times> jsval) list"



text \<open>Truthiness, as \<open>!v\<close>, \<open>a || b\<close> and \<open>if (v)\<close> test it.\<close>

fun truthy :: "jsval \<Rightarrow> bool" where
  "truthy JUndefined = False"
| "truthy JNull = False"
| "truthy (JBool b) = b"
| "truthy (JNum (Fin x)) = (x \<noteq> 0)"
| "truthy (JNum NaN) = False"
| "truthy (JStr s) = (s \<noteq> [])"
| "truthy (JObject fs) = True"

definition js_or :: "jsval \<Rightarrow> jsval \<Rightarrow> jsval" where
  "js_or a b = (if truthy a then a else b)"

text \<open>
  Property access \<open>v?.k\<close>: undefined on undefined and null, the own property on an
  object, undefined on a primitive (none of the keys read below is a property of a
  primitive's wrapper). The plain access \<open>v.k\<close> is only ever applied behind a truthiness
  test of \<open>v\<close>, where it is the same function.
\<close>

fun get :: "jsval \<Rightarrow> string \<Rightarrow> jsval" where
  "get (JObject fs) k = (case map_of fs k of Some v \<Rightarrow> v | None \<Rightarrow> JUndefined)"
| "get v k = JUndefined"

fun object_keys :: "jsval \<Rightarrow> string list" where
  "object_keys (JObject fs) = map fst fs"
| "object_keys v = []"

fun delete_key :: "string \<Rightarrow> jsval \<Rightarrow> jsval" where
  "delete_key k (JObject fs) = JObject (filter (\<lambda>kv. fst kv \<noteq> k) fs)"
| "delete_key k v = v"


fun num_gt :: "jsnum \<Rightarrow> rat \<Rightarrow> bool" where
  "num_gt (Fin x) c = (x > c)"
| "num_gt NaN c = False"

fun num_le :: "jsnum \<Rightarrow> rat \<Rightarrow> bool" where
  "num_le (Fin x) c = (x \<le> c)"
| "num_le NaN c = False"

section \<open>Configuration\<close>

text \<open>
  The part of the configuration the plugin reads: \<open>config.multiCore\<close>, and of
  \<open>config.app\<close> (an object in every configuration the deployment tool loads) the
  fields \<open>name\<close>, \<open>servers\<close>, \<open>docker\<close> and \<open>env\<close>.
\<close>

record config =
  multiCore :: jsval
  appName :: string
  appServers :: jsval
  appDocker :: jsval
  appEnv :: jsval

text \<open>
  \<open>serverConfigs\<close> is the module-level table the plugin keeps beside the configuration:
  server name to that server's \<open>multiCore\<close> value. It is passed explicitly here.
\<close>

type_synonym server_configs = "(string \<times> jsval) list"

definition lookup_server :: "server_configs \<Rightarrow> string \<Rightarrow> jsval" where
  "lookup_server sc serverName = (case map_of sc serverName of Some v \<Rightarrow> v | None \<Rightarrow> JUndefined)"

definition getAppPort :: "config \<Rightarrow> jsval" where
  "getAppPort cfg =
     (if truthy (appEnv cfg) \<and> truthy (get (appEnv cfg) ''PORT'')
      then get (appEnv cfg) ''PORT'' else JNum (Fin 3000))"

definition getInstanceCount :: "config \<Rightarrow> server_configs \<Rightarrow> string \<Rightarrow> jsval" where
  "getInstanceCount cfg sc serverName =
     (let serverConfig = lookup_server sc serverName;
          globalConfig = multiCore cfg
      in js_or (js_or (get serverConfig ''instances'') (get globalConfig ''instances''))
           (JStr ''auto''))"

definition getStartingPort :: "config \<Rightarrow> server_configs \<Rightarrow> string \<Rightarrow> jsval" where
  "getStartingPort cfg sc serverName =
     (let serverConfig = lookup_server sc serverName;
          globalConfig = multiCore cfg
      in js_or (js_or (get serverConfig ''startingPort'') (get globalConfig ''startingPort''))
           (JNum (Fin 3001)))"

definition shouldUseNginx :: "config \<Rightarrow> server_configs \<Rightarrow> string \<Rightarrow> jsval" where
  "shouldUseNginx cfg sc serverName =
     (let serverConfig = lookup_server sc serverName;
          globalConfig = multiCore cfg
      in js_or (js_or (get serverConfig ''useNginx'') (get globalConfig ''useNginx''))
           (JBool False))"

text \<open>
  \<open>prepareConfig\<close> rebuilds the table from \<open>config.app.servers\<close> and deletes each
  \<open>multiCore\<close> it has moved; without \<open>app.servers\<close> it leaves the old table in place.
\<close>

definition has_multiCore :: "jsval \<Rightarrow> bool" where
  "has_multiCore serverConfig = (truthy serverConfig \<and> truthy (get serverConfig ''multiCore''))"

definition prepareConfig :: "config \<Rightarrow> server_configs \<Rightarrow> server_configs \<times> config" where
  "prepareConfig cfg old =
     (if truthy (appServers cfg) then
        (let servers = appServers cfg;
             names = object_keys servers;
             table = map (\<lambda>n. (n, get (get servers n) ''multiCore''))
                       (filter (\<lambda>n. has_multiCore (get servers n)) names);
             servers' = (case servers of
                 JObject fs \<Rightarrow>
                   JObject (map (\<lambda>kv. (fst kv,
                       if has_multiCore (snd kv) then delete_key ''multiCore'' (snd kv) else snd kv)) fs)
               | v \<Rightarrow> v)
         in (table, cfg\<lparr>appServers := servers'\<rparr>))
      else (old, cfg))"

text \<open>
  The resolution as the specification words it: the per-server value when the field is
  defined there, else the global value when defined, else the default.
\<close>

definition resolve_spec :: "jsval \<Rightarrow> jsval \<Rightarrow> string \<Rightarrow> jsval \<Rightarrow> jsval" where
  "resolve_spec perServer global field dflt =
     (if get perServer field \<noteq> JUndefined then get perServer field
      else if get global field \<noteq> JUndefined then get global field
      else dflt)"

section \<open>Validation\<close>













section \<open>Example configurations\<close>

definition cfg_override :: config where
  "cfg_override =
     \<lparr>multiCore = JObject [(''useNginx'', JBool True)],
      appName = ''myapp'',
      appServers = JObject [(''web1'',
        JObject [(''multiCore'', JObject [(''useNginx'', JBool False)])])],
      appDocker = JObject [(''image'', JStr ''zodern/meteor'')],
      appEnv = JUndefined\<rparr>"


section \<open>Strings\<close>

text \<open>
  \<open>String.prototype.trim\<close> on the ASCII white space, \<open>includes\<close> as the contiguous
  sublist test of the library, and the decimal rendering of a loop index in a template
  literal.
\<close>

definition is_space :: "char \<Rightarrow> bool" where
  "is_space c = (c \<in> set [CHR '' '', CHR 0x09, CHR 0x0A, CHR 0x0B, CHR 0x0C, CHR 0x0D])"

definition trim :: "string \<Rightarrow> string" where
  "trim s = rev (dropWhile is_space (rev (dropWhile is_space s)))"

definition is_digit :: "char \<Rightarrow> bool" where
  "is_digit c = (48 \<le> (of_char c :: nat) \<and> (of_char c :: nat) \<le> 57)"

definition is_hex_digit :: "char \<Rightarrow> bool" where
  "is_hex_digit c =
     (is_digit c \<or> (65 \<le> (of_char c :: nat) \<and> (of_char c :: nat) \<le> 70)
        \<or> (97 \<le> (of_char c :: nat) \<and> (of_char c :: nat) \<le> 102))"

definition digit_value :: "char \<Rightarrow> nat" where
  "digit_value c =
     (if is_digit c then of_char c - 48
      else if 97 \<le> (of_char c :: nat) then of_char c - 87
      else of_char c - 55)"

definition digits_value :: "nat \<Rightarrow> string \<Rightarrow> nat" where
  "digits_value radix ds = foldl (\<lambda>acc c. acc * radix + digit_value c) 0 ds"

text \<open>
  \<open>parseInt(s)\<close> without a radix: leading white space and one sign are skipped, a
  \<open>0x\<close> prefix selects radix 16, the longest run of digits is read, and no digit at all
  gives NaN. It never throws.
\<close>

definition parseInt :: "string \<Rightarrow> jsnum" where
  "parseInt s =
     (let t = dropWhile is_space s;
          negative = (t \<noteq> [] \<and> hd t = CHR ''-'');
          u = (if t \<noteq> [] \<and> (hd t = CHR ''-'' \<or> hd t = CHR ''+'') then tl t else t);
          hex = (take 2 u = ''0x'' \<or> take 2 u = ''0X'');
          ds = (if hex then takeWhile is_hex_digit (drop 2 u) else takeWhile is_digit u);
          n = digits_value (if hex then 16 else 10) ds
      in if ds = [] then NaN
         else Fin (if negative then - of_nat n else of_nat n))"

function show_nat :: "nat \<Rightarrow> string" where
  "show_nat n =
     (if n < 10 then [char_of (48 + n)]
      else show_nat (n div 10) @ [char_of (48 + n mod 10)])"
  by pat_completeness auto
termination
  by (relation "measure id") auto

declare show_nat.simps [simp del]

definition worker_filter :: "string \<Rightarrow> string" where
  "worker_filter app = app @ ''-worker''"

definition workerName :: "string \<Rightarrow> nat \<Rightarrow> string" where
  "workerName app i = app @ ''-worker-'' @ show_nat i"

section \<open>Remote commands\<close>

text \<open>
  Every shell command the plugin sends, one constructor per template of the source, with
  the interpolated values as arguments:
  \<^item> \<open>Nproc\<close>: \<^verbatim>\<open>nproc\<close>
  \<^item> \<open>DockerPsIds all f\<close>: \<^verbatim>\<open>docker ps -aq --filter name=f\<close> (\<^verbatim>\<open>-q\<close> when \<open>all\<close> is false)
  \<^item> \<open>DockerStopFiltered all f tol\<close>: \<^verbatim>\<open>docker stop $(docker ps -aq --filter name=f)\<close>,
    followed by \<^verbatim>\<open>|| true\<close> when \<open>tol\<close>
  \<^item> \<open>DockerRmFiltered f tol\<close>: \<^verbatim>\<open>docker rm $(docker ps -aq --filter name=f)\<close>,
    followed by \<^verbatim>\<open>|| true\<close> when \<open>tol\<close>
  \<^item> \<open>DockerRestartFiltered f\<close>: \<^verbatim>\<open>docker restart $(docker ps -aq --filter name=f)\<close>
  \<^item> \<open>DockerStop n\<close>, \<open>DockerRm n\<close>: \<^verbatim>\<open>docker stop n || true\<close>, \<^verbatim>\<open>docker rm n || true\<close>
  \<^item> \<open>DockerInspectImage n\<close>: \<^verbatim>\<open>docker inspect n --format='{{.Image}}'\<close>
  \<^item> \<open>DockerRun a\<close>: \<^verbatim>\<open>docker run -d --name .. --hostname .. --restart always --network=bridge\<close>
    \<^verbatim>\<open>-p 127.0.0.1:port:appPort -e PORT=appPort -e CORE_ID=i --env-file .. image\<close>
  \<^item> \<open>DockerPsStatus n\<close>: \<^verbatim>\<open>docker ps --filter name=n --format "{{.Names}} {{.Status}}"\<close>
  \<^item> \<open>DockerLogs n\<close>: \<^verbatim>\<open>docker logs n 2>&1 || echo "Container not found"\<close>
  \<^item> \<open>DockerImages i\<close>: \<^verbatim>\<open>docker images i --format "{{.Repository}}:{{.Tag}}"\<close>
  \<^item> \<open>DockerPsGrep a\<close>: \<^verbatim>\<open>docker ps | grep a\<close>
  \<^item> \<open>NginxBackupEnv\<close>, \<open>NginxWriteUpstream\<close>, \<open>NginxPatchProxy\<close>, \<open>NginxInsertUpstream\<close>,
    \<open>NginxReload\<close>: the five commands of the load-balancer update, in their order.
\<close>

record run_args =
  runName :: string
  runHostname :: string
  runPort :: jsnum
  runAppPort :: jsval
  runCoreId :: nat
  runEnvFile :: string
  runImage :: string

datatype cmd =
    Nproc
  | DockerPsIds bool string
  | DockerStopFiltered bool string bool
  | DockerRmFiltered string bool
  | DockerRestartFiltered string
  | DockerStop string
  | DockerRm string
  | DockerInspectImage string
  | DockerRun run_args
  | DockerPsStatus string
  | DockerLogs string
  | DockerImages string
  | DockerPsGrep string
  | NginxBackupEnv string
  | NginxWriteUpstream string jsval "jsnum list"
  | NginxPatchProxy jsval
  | NginxInsertUpstream string
  | NginxReload

text \<open>A remote command returns its output or throws (unreachable host, non-zero exit).\<close>

datatype result = Throws string | Output string

datatype logmsg =
    LogCoresFallback string
  | LogNginxBanner
  | LogNginxSkip string
  | LogNginxUpdated string jsnum
  | LogNginxError string string
  | LogStartBanner
  | LogSingleCore string
  | LogCleanedUp
  | LogNoWorkersNeeded string
  | LogNoImage string
  | LogUsingImage string string
  | LogCleaningUp
  | LogStarting string jsnum
  | LogWorkerUp string jsnum nat
  | LogWorkerFailed string string
  | LogImageMissing string
  | LogWorkerError string string
  | LogAllRunning string string
  | LogStartError string string
  | LogStopBanner
  | LogStopped string
  | LogNoneToStop string
  | LogStopError string string
  | LogRestartBanner
  | LogRestarted string
  | LogRestartNone string
  | LogRestartError string string

text \<open>
  The world a pass runs in: the state of the remote hosts, which only the executor reads
  and writes, the commands sent so far with the server they went to and what came back,
  and the console. The executor is a parameter: any function from the hosts' state, a
  server and a command to a result and the next state.
\<close>

record 'h world =
  host :: 'h
  issued :: "(string \<times> cmd \<times> result) list"
  console :: "logmsg list"

type_synonym 'h exec = "'h \<Rightarrow> string \<Rightarrow> cmd \<Rightarrow> result \<times> 'h"

definition runSSHCommand :: "'h exec \<Rightarrow> string \<Rightarrow> cmd \<Rightarrow> 'h world \<Rightarrow> result \<times> 'h world" where
  "runSSHCommand exec serverName c w =
     (case exec (host w) serverName c of
        (r, h') \<Rightarrow> (r, w\<lparr>host := h', issued := issued w @ [(serverName, c, r)]\<rparr>))"

definition say :: "logmsg \<Rightarrow> 'h world \<Rightarrow> 'h world" where
  "say m w = w\<lparr>console := console w @ [m]\<rparr>"

definition fresh :: "'h \<Rightarrow> 'h world" where
  "fresh h = \<lparr>host = h, issued = [], console = []\<rparr>"

section \<open>Core-count detection\<close>

definition detectCores :: "'h exec \<Rightarrow> string \<Rightarrow> 'h world \<Rightarrow> jsnum \<times> 'h world" where
  "detectCores exec serverName w =
     (case runSSHCommand exec serverName Nproc w of
        (Output out, w1) \<Rightarrow> (parseInt (trim out), w1)
      | (Throws e, w1) \<Rightarrow> (Fin 2, say (LogCoresFallback serverName) w1))"

text \<open>\<open>instanceCount === 'auto' ? await detectCores(api, serverName) : instanceCount\<close>\<close>

definition resolveCores :: "'h exec \<Rightarrow> string \<Rightarrow> jsval \<Rightarrow> 'h world \<Rightarrow> jsval \<times> 'h world" where
  "resolveCores exec serverName instanceCount w =
     (if instanceCount = JStr ''auto''
      then (case detectCores exec serverName w of (n, w1) \<Rightarrow> (JNum n, w1))
      else (instanceCount, w))"

section \<open>Worker reconciliation\<close>

text \<open>
  A per-server task settles as the promise of its \<open>async\<close> function does: resolved, or
  rejected with the message of an error nothing caught. \<open>Unmodelled\<close> stands for a
  configuration outside the model: \<open>instances\<close> that is neither "auto" nor a number, or
  a \<open>startingPort\<close> that is not a number, both of which validation flags and JavaScript
  would coerce. Nothing is sent for such a server.
\<close>

datatype outcome = Resolved | Rejected string | Unmodelled

text \<open>
  The loop of both \<open>catch\<close> blocks:
  \<^verbatim>\<open>for (let i = 1; i <= 10; i++) { stop appName-worker-i; rm appName-worker-i }\<close>.
  An error thrown here is not caught by the block itself: it is returned.
\<close>

function fallbackLoop ::
  "'h exec \<Rightarrow> string \<Rightarrow> string \<Rightarrow> nat \<Rightarrow> 'h world \<Rightarrow> string option \<times> 'h world" where
  "fallbackLoop exec serverName app i w =
     (if i \<le> 10 then
        (case runSSHCommand exec serverName (DockerStop (workerName app i)) w of
           (Throws e, w1) \<Rightarrow> (Some e, w1)
         | (Output out1, w1) \<Rightarrow>
             (case runSSHCommand exec serverName (DockerRm (workerName app i)) w1 of
                (Throws e, w2) \<Rightarrow> (Some e, w2)
              | (Output out2, w2) \<Rightarrow> fallbackLoop exec serverName app (Suc i) w2))
      else (None, w))"
  by pat_completeness auto
termination
  by (relation "measure (\<lambda>(exec, serverName, app, i, w). 11 - i)") auto

declare fallbackLoop.simps [simp del]

text \<open>The \<open>try\<close>/\<open>catch\<close> of the branch \<open>cores <= 1\<close> (lines 119 to 131).\<close>

definition cleanupSingle ::
  "'h exec \<Rightarrow> string \<Rightarrow> string \<Rightarrow> 'h world \<Rightarrow> string option \<times> 'h world" where
  "cleanupSingle exec serverName app w =
     (case runSSHCommand exec serverName (DockerPsIds True (worker_filter app)) w of
        (Throws e, w1) \<Rightarrow> fallbackLoop exec serverName app 1 w1
      | (Output existingWorkers, w1) \<Rightarrow>
          if trim existingWorkers \<noteq> [] then
            (case runSSHCommand exec serverName
                    (DockerStopFiltered True (worker_filter app) True) w1 of
               (Throws e, w2) \<Rightarrow> fallbackLoop exec serverName app 1 w2
             | (Output out2, w2) \<Rightarrow>
                 (case runSSHCommand exec serverName
                         (DockerRmFiltered (worker_filter app) True) w2 of
                    (Throws e, w3) \<Rightarrow> fallbackLoop exec serverName app 1 w3
                  | (Output out3, w3) \<Rightarrow> (None, say LogCleanedUp w3)))
          else (None, w1))"

text \<open>The inner \<open>try\<close>/\<open>catch\<close> of the branch \<open>cores > 1\<close> (lines 144 to 156).\<close>

definition cleanupMulti ::
  "'h exec \<Rightarrow> string \<Rightarrow> string \<Rightarrow> 'h world \<Rightarrow> string option \<times> 'h world" where
  "cleanupMulti exec serverName app w =
     (case runSSHCommand exec serverName (DockerPsIds True (worker_filter app)) w of
        (Throws e, w1) \<Rightarrow> fallbackLoop exec serverName app 1 w1
      | (Output existingWorkers, w1) \<Rightarrow>
          if trim existingWorkers \<noteq> [] then
            (case runSSHCommand exec serverName
                    (DockerStopFiltered True (worker_filter app) True) (say LogCleaningUp w1) of
               (Throws e, w2) \<Rightarrow> fallbackLoop exec serverName app 1 w2
             | (Output out2, w2) \<Rightarrow>
                 (case runSSHCommand exec serverName
                         (DockerRmFiltered (worker_filter app) True) w2 of
                    (Throws e, w3) \<Rightarrow> fallbackLoop exec serverName app 1 w3
                  | (Output out3, w3) \<Rightarrow> (None, w3)))
          else (None, w1))"

text \<open>\<open>startingPort + i - 1\<close>\<close>

fun portOf :: "jsnum \<Rightarrow> nat \<Rightarrow> jsnum" where
  "portOf (Fin p) i = Fin (p + of_nat i - 1)"
| "portOf NaN i = NaN"

definition runCmd :: "string \<Rightarrow> string \<Rightarrow> jsval \<Rightarrow> string \<Rightarrow> jsnum \<Rightarrow> nat \<Rightarrow> cmd" where
  "runCmd serverName app appPort actualImage startingPort i =
     DockerRun \<lparr>runName = workerName app i,
                runHostname = serverName @ ''-'' @ app @ ''-'' @ show_nat i,
                runPort = portOf startingPort i,
                runAppPort = appPort,
                runCoreId = i,
                runEnvFile = ''/opt/'' @ app @ ''/config/env.list'',
                runImage = actualImage\<rparr>"

text \<open>
  The body of the creation loop for slot \<open>i\<close> (lines 159 to 188); its own \<open>try\<close>
  catches every error, so it returns the world only. The two seconds it waits after
  \<open>docker run\<close> leave no trace here.
\<close>

definition startWorker ::
  "'h exec \<Rightarrow> string \<Rightarrow> string \<Rightarrow> jsval \<Rightarrow> string \<Rightarrow> jsnum \<Rightarrow> nat \<Rightarrow> 'h world \<Rightarrow> 'h world" where
  "startWorker exec serverName app appPort actualImage startingPort i w =
     (let containerName = workerName app i;
          port = portOf startingPort i
      in case runSSHCommand exec serverName
                (runCmd serverName app appPort actualImage startingPort i) w of
           (Throws e, w1) \<Rightarrow> say (LogWorkerError containerName e) w1
         | (Output runResult, w1) \<Rightarrow>
             (case runSSHCommand exec serverName (DockerPsStatus containerName) w1 of
                (Throws e, w2) \<Rightarrow> say (LogWorkerError containerName e) w2
              | (Output statusCheck, w2) \<Rightarrow>
                  if sublist containerName statusCheck \<and> sublist ''Up'' statusCheck
                  then say (LogWorkerUp containerName port i) w2
                  else
                    (case runSSHCommand exec serverName (DockerLogs containerName) w2 of
                       (Throws e, w3) \<Rightarrow> say (LogWorkerError containerName e) w3
                     | (Output logs, w3) \<Rightarrow>
                         (case runSSHCommand exec serverName (DockerImages actualImage)
                                 (say (LogWorkerFailed containerName logs) w3) of
                            (Throws e, w4) \<Rightarrow> say (LogWorkerError containerName e) w4
                          | (Output imageCheck, w4) \<Rightarrow>
                              if \<not> sublist actualImage imageCheck
                              then say (LogImageMissing actualImage) w4
                              else w4))))"

text \<open>\<open>for (let i = 1; i < cores; i++)\<close>, entered at \<open>i\<close>.\<close>

function workerLoop ::
  "'h exec \<Rightarrow> string \<Rightarrow> string \<Rightarrow> jsval \<Rightarrow> string \<Rightarrow> jsnum \<Rightarrow> jsnum \<Rightarrow> nat \<Rightarrow> 'h world \<Rightarrow> 'h world" where
  "workerLoop exec serverName app appPort actualImage startingPort cores i w =
     (if num_gt cores (of_nat i)
      then workerLoop exec serverName app appPort actualImage startingPort cores (Suc i)
             (startWorker exec serverName app appPort actualImage startingPort i w)
      else w)"
  by pat_completeness auto
termination
proof (relation "measure (\<lambda>(exec, serverName, app, appPort, actualImage, startingPort, cores, i, w).
         case cores of Fin x \<Rightarrow> nat \<lceil>x\<rceil> - i | NaN \<Rightarrow> 0)")
  show "wf (measure (\<lambda>(exec :: 'h exec, serverName :: string, app :: string, appPort :: jsval,
         actualImage :: string, startingPort :: jsnum, cores, i, w :: 'h world).
         case cores of Fin x \<Rightarrow> nat \<lceil>x\<rceil> - i | NaN \<Rightarrow> 0))"
    by simp
next
  fix exec :: "'h exec" and serverName app :: string and appPort :: jsval
    and actualImage :: string and startingPort cores :: jsnum and i :: nat and w :: "'h world"
  assume "num_gt cores (of_nat i)"
  then obtain x where c: "cores = Fin x" and lt: "of_nat i < x"
    by (cases cores) auto
  have "rat_of_int (int i) < x"
    using lt by simp
  then have "int i < \<lceil>x\<rceil>"
    by (simp add: less_ceiling_iff)
  then have "i < nat \<lceil>x\<rceil>"
    by linarith
  then show "((exec, serverName, app, appPort, actualImage, startingPort, cores, Suc i,
                startWorker exec serverName app appPort actualImage startingPort i w),
              (exec, serverName, app, appPort, actualImage, startingPort, cores, i, w))
        \<in> measure (\<lambda>(exec, serverName, app, appPort, actualImage, startingPort, cores, i, w).
             case cores of Fin x \<Rightarrow> nat \<lceil>x\<rceil> - i | NaN \<Rightarrow> 0)"
    using c by simp
qed

declare workerLoop.simps [simp del]

text \<open>The outer \<open>try\<close> of the branch \<open>cores > 1\<close> (lines 136 to 199).\<close>

definition startWorkers ::
  "'h exec \<Rightarrow> string \<Rightarrow> string \<Rightarrow> jsval \<Rightarrow> jsnum \<Rightarrow> jsnum \<Rightarrow> 'h world \<Rightarrow> 'h world" where
  "startWorkers exec serverName app appPort startingPort cores w =
     (case runSSHCommand exec serverName (DockerInspectImage app) w of
        (Throws e, w1) \<Rightarrow> say (LogStartError serverName e) w1
      | (Output imageQuery, w1) \<Rightarrow>
          (let actualImage = trim imageQuery in
           if actualImage = [] then say (LogNoImage serverName) w1
           else
             (case cleanupMulti exec serverName app (say (LogUsingImage serverName actualImage) w1) of
                (Some e, w2) \<Rightarrow> say (LogStartError serverName e) w2
              | (None, w2) \<Rightarrow>
                  (case runSSHCommand exec serverName (DockerPsGrep app)
                          (workerLoop exec serverName app appPort actualImage startingPort cores 1
                             (say (LogStarting serverName cores) w2)) of
                     (Throws e, w3) \<Rightarrow> say (LogStartError serverName e) w3
                   | (Output status, w3) \<Rightarrow> say (LogAllRunning serverName status) w3))))"

text \<open>The task of one server in \<open>startWorkerContainers\<close> (lines 111 to 200).\<close>

definition startWorkerServer ::
  "'h exec \<Rightarrow> config \<Rightarrow> server_configs \<Rightarrow> string \<Rightarrow> 'h world \<Rightarrow> outcome \<times> 'h world" where
  "startWorkerServer exec cfg sc serverName w =
     (let app = appName cfg;
          appPort = getAppPort cfg;
          instanceCount = getInstanceCount cfg sc serverName;
          startingPort = getStartingPort cfg sc serverName
      in case resolveCores exec serverName instanceCount w of
           (JNum cores, w0) \<Rightarrow>
             (case startingPort of
                JNum p \<Rightarrow>
                  if num_le cores 1 then
                    (case cleanupSingle exec serverName app (say (LogSingleCore serverName) w0) of
                       (Some e, w1) \<Rightarrow> (Rejected e, w1)
                     | (None, w1) \<Rightarrow> (Resolved, say (LogNoWorkersNeeded serverName) w1))
                  else (Resolved, startWorkers exec serverName app appPort p cores w0)
              | _ \<Rightarrow> (Unmodelled, w0))
         | (_, w0) \<Rightarrow> (Unmodelled, w0))"

section \<open>Server selection and the scatter over servers\<close>









section \<open>Stop and restart\<close>





section \<open>Load-balancer update\<close>






section \<open>Hooks\<close>





section \<open>A container host\<close>

text \<open>
  The container runtime is not part of the plugin. To run the operations, and to speak of
  the inventory they leave, this is the plain host a test double would be: a list of
  containers, each with a name, an identifier, the host port it publishes, an image and
  a running flag, and the output \<open>nproc\<close> prints. A name filter selects the containers
  whose name contains the filter's text; \<open>docker ps -q\<close> prints one identifier per line;
  \<open>docker stop\<close>, \<open>rm\<close> and \<open>restart\<close> fail without an argument and \<open>rm\<close> fails on a
  running container (a failure \<^verbatim>\<open>|| true\<close> hides); \<open>docker run\<close> fails when the name is
  taken; \<open>grep\<close> fails when no line matches. Port clashes are not modelled. One host
  stands for every server.
\<close>

record container =
  cName :: string
  cId :: nat
  cPort :: jsnum
  cImage :: string
  cRunning :: bool

record docker_host =
  containers :: "container list"
  nprocOutput :: string
  nextId :: nat

definition matching :: "string \<Rightarrow> container \<Rightarrow> bool" where
  "matching f c = sublist f (cName c)"

definition id_lines :: "container list \<Rightarrow> string" where
  "id_lines cs = concat (map (\<lambda>c. ''c'' @ show_nat (cId c) @ [CHR 0x0A]) cs)"

definition tolerate :: "bool \<Rightarrow> result \<Rightarrow> result" where
  "tolerate tol r = (case r of Throws e \<Rightarrow> if tol then Output [] else Throws e | Output out \<Rightarrow> Output out)"

definition stop_where :: "(container \<Rightarrow> bool) \<Rightarrow> docker_host \<Rightarrow> docker_host" where
  "stop_where P h =
     h\<lparr>containers := map (\<lambda>c. if P c then c\<lparr>cRunning := False\<rparr> else c) (containers h)\<rparr>"

definition start_where :: "(container \<Rightarrow> bool) \<Rightarrow> docker_host \<Rightarrow> docker_host" where
  "start_where P h =
     h\<lparr>containers := map (\<lambda>c. if P c then c\<lparr>cRunning := True\<rparr> else c) (containers h)\<rparr>"

definition rm_where :: "(container \<Rightarrow> bool) \<Rightarrow> docker_host \<Rightarrow> docker_host" where
  "rm_where P h =
     h\<lparr>containers := filter (\<lambda>c. \<not> (P c \<and> \<not> cRunning c)) (containers h)\<rparr>"

fun docker_exec :: "docker_host exec" where
  "docker_exec h s Nproc = (Output (nprocOutput h), h)"
| "docker_exec h s (DockerPsIds all f) =
     (Output (id_lines (filter (\<lambda>c. matching f c \<and> (all \<or> cRunning c)) (containers h))), h)"
| "docker_exec h s (DockerStopFiltered all f tol) =
     (if list_ex (\<lambda>c. matching f c \<and> (all \<or> cRunning c)) (containers h)
      then (Output [], stop_where (\<lambda>c. matching f c \<and> (all \<or> cRunning c)) h)
      else (tolerate tol (Throws ''docker stop requires at least 1 argument''), h))"
| "docker_exec h s (DockerRmFiltered f tol) =
     (if \<not> list_ex (matching f) (containers h)
      then (tolerate tol (Throws ''docker rm requires at least 1 argument''), h)
      else if list_ex (\<lambda>c. matching f c \<and> cRunning c) (containers h)
      then (tolerate tol (Throws ''cannot remove a running container''), rm_where (matching f) h)
      else (Output [], rm_where (matching f) h))"
| "docker_exec h s (DockerRestartFiltered f) =
     (if list_ex (matching f) (containers h)
      then (Output [], start_where (matching f) h)
      else (Throws ''docker restart requires at least 1 argument'', h))"
| "docker_exec h s (DockerStop n) = (Output [], stop_where (\<lambda>c. cName c = n) h)"
| "docker_exec h s (DockerRm n) = (Output [], rm_where (\<lambda>c. cName c = n) h)"
| "docker_exec h s (DockerInspectImage n) =
     (case find (\<lambda>c. cName c = n) (containers h) of
        Some c \<Rightarrow> (Output (cImage c @ [CHR 0x0A]), h)
      | None \<Rightarrow> (Throws ''No such object'', h))"
| "docker_exec h s (DockerRun a) =
     (if list_ex (\<lambda>c. cName c = runName a) (containers h)
      then (Throws ''Conflict. The container name is already in use'', h)
      else (Output (''c'' @ show_nat (nextId h)),
            h\<lparr>containers := containers h @
                 [\<lparr>cName = runName a, cId = nextId h, cPort = runPort a,
                   cImage = runImage a, cRunning = True\<rparr>],
              nextId := Suc (nextId h)\<rparr>))"
| "docker_exec h s (DockerPsStatus n) =
     (Output (concat (map (\<lambda>c. cName c @ '' Up 2 seconds'' @ [CHR 0x0A])
        (filter (\<lambda>c. matching n c \<and> cRunning c) (containers h)))), h)"
| "docker_exec h s (DockerLogs n) =
     (if list_ex (\<lambda>c. cName c = n) (containers h) then (Output [], h)
      else (Output ''Container not found'', h))"
| "docker_exec h s (DockerImages i) =
     (if list_ex (\<lambda>c. cImage c = i) (containers h) then (Output (i @ [CHR 0x0A]), h)
      else (Output [], h))"
| "docker_exec h s (DockerPsGrep a) =
     (if list_ex (\<lambda>c. matching a c \<and> cRunning c) (containers h)
      then (Output (concat (map (\<lambda>c. cName c @ [CHR 0x0A])
              (filter (\<lambda>c. matching a c \<and> cRunning c) (containers h)))), h)
      else (Throws ''exit status 1'', h))"
| "docker_exec h s (NginxBackupEnv a) = (Output [], h)"
| "docker_exec h s (NginxWriteUpstream a p ports) = (Output [], h)"
| "docker_exec h s (NginxPatchProxy p) = (Output [], h)"
| "docker_exec h s (NginxInsertUpstream a) = (Output [], h)"
| "docker_exec h s NginxReload = (Output [], h)"

text \<open>The replica inventory of an application on a host: names and published ports.\<close>

definition inventory :: "string \<Rightarrow> docker_host \<Rightarrow> (string \<times> jsnum) list" where
  "inventory app h =
     map (\<lambda>c. (cName c, cPort c)) (filter (matching (worker_filter app)) (containers h))"

section \<open>Vocabulary of the properties\<close>

text \<open>
  \<open>adds Q w w'\<close>: the world \<open>w'\<close> has the trace of \<open>w\<close> and, after it, only entries that
  satisfy \<open>Q\<close>.
\<close>

definition adds :: "(string \<times> cmd \<times> result \<Rightarrow> bool) \<Rightarrow> 'h world \<Rightarrow> 'h world \<Rightarrow> bool" where
  "adds Q w w' = (\<exists>ext. issued w' = issued w @ ext \<and> list_all Q ext)"

text \<open>The commands sent so far, without servers and results.\<close>

definition commands :: "'h world \<Rightarrow> cmd list" where
  "commands w = map (\<lambda>x. fst (snd x)) (issued w)"

text \<open>A name of the form \<open>appName-worker-...\<close>.\<close>

definition worker_named :: "string \<Rightarrow> string \<Rightarrow> bool" where
  "worker_named app n = prefix (app @ ''-worker-'') n"

text \<open>
  The commands of the worker operations of an application: queries, and stop, remove,
  restart and create commands whose target is a worker name or the worker filter.
\<close>

fun worker_op :: "string \<Rightarrow> cmd \<Rightarrow> bool" where
  "worker_op app Nproc = True"
| "worker_op app (DockerPsIds all f) = (f = worker_filter app)"
| "worker_op app (DockerStopFiltered all f tol) = (f = worker_filter app)"
| "worker_op app (DockerRmFiltered f tol) = (f = worker_filter app)"
| "worker_op app (DockerRestartFiltered f) = (f = worker_filter app)"
| "worker_op app (DockerStop n) = worker_named app n"
| "worker_op app (DockerRm n) = worker_named app n"
| "worker_op app (DockerInspectImage n) = (n = app)"
| "worker_op app (DockerRun a) = worker_named app (runName a)"
| "worker_op app (DockerPsStatus n) = worker_named app n"
| "worker_op app (DockerLogs n) = worker_named app n"
| "worker_op app (DockerImages i) = True"
| "worker_op app (DockerPsGrep a) = (a = app)"
| "worker_op app (NginxBackupEnv a) = False"
| "worker_op app (NginxWriteUpstream a p ports) = False"
| "worker_op app (NginxPatchProxy p) = False"
| "worker_op app (NginxInsertUpstream a) = False"
| "worker_op app NginxReload = False"




fun is_removal :: "cmd \<Rightarrow> bool" where
  "is_removal (DockerStopFiltered all f tol) = True"
| "is_removal (DockerRmFiltered f tol) = True"
| "is_removal (DockerStop m) = True"
| "is_removal (DockerRm m) = True"
| "is_removal c = False"

fun is_creation :: "cmd \<Rightarrow> bool" where
  "is_creation (DockerRun a) = True"
| "is_creation c = False"

definition created :: "'h world \<Rightarrow> cmd list" where
  "created w = filter is_creation (commands w)"

text \<open>\<open>returned c tr\<close>: the command \<open>c\<close> occurs in the trace \<open>tr\<close> and did not throw.\<close>

fun is_output :: "result \<Rightarrow> bool" where
  "is_output (Output out) = True"
| "is_output (Throws e) = False"

definition returned :: "cmd \<Rightarrow> (string \<times> cmd \<times> result) list \<Rightarrow> bool" where
  "returned c tr = list_ex (\<lambda>x. fst (snd x) = c \<and> is_output (snd (snd x))) tr"










section \<open>The inventory a pass leaves on the container host\<close>

text \<open>
  The containers a host keeps through a cleanup: those the worker filter does not select.
\<close>

definition others :: "string \<Rightarrow> docker_host \<Rightarrow> container list" where
  "others app h = filter (\<lambda>c. \<not> matching (worker_filter app) c) (containers h)"

text \<open>The host once every container the worker filter selects is removed.\<close>

definition purge :: "string \<Rightarrow> docker_host \<Rightarrow> docker_host" where
  "purge app h = h\<lparr>containers := others app h\<rparr>"

text \<open>
  What the reconciler takes for the primary's image: the trimmed answer of
  \<open>docker inspect\<close>, empty also when there is no container named \<open>appName\<close>.
\<close>

definition primary_image :: "string \<Rightarrow> docker_host \<Rightarrow> string" where
  "primary_image app h =
     (case find (\<lambda>c. cName c = app) (containers h) of
        Some c \<Rightarrow> trim (cImage c @ [CHR 0x0A])
      | None \<Rightarrow> [])"

text \<open>The first index the loop \<open>for (i = 1; i < cores; i++)\<close> does not visit.\<close>

fun slots_end :: "jsnum \<Rightarrow> nat" where
  "slots_end (Fin x) = nat \<lceil>x\<rceil>"
| "slots_end NaN = 1"

text \<open>
  The core count a pass works with on this host: what \<open>nproc\<close> prints, parsed, for
  "auto"; the configured number otherwise; none outside the model.
\<close>

definition desired_cores :: "config \<Rightarrow> server_configs \<Rightarrow> string \<Rightarrow> docker_host \<Rightarrow> jsnum option" where
  "desired_cores cfg sc s h =
     (case getInstanceCount cfg sc s of
        JStr a \<Rightarrow> if a = ''auto'' then Some (parseInt (trim (nprocOutput h))) else None
      | JNum n \<Rightarrow> Some n
      | _ \<Rightarrow> None)"

text \<open>
  The replica inventory a pass leaves: empty for a single core; the slots 1 to \<open>c - 1\<close> on
  their ports when the primary's image is found; the inventory as it was when the pass
  gives up before the cleanup (no image, or a configuration outside the model).
\<close>

definition expected_inventory ::
  "config \<Rightarrow> server_configs \<Rightarrow> string \<Rightarrow> docker_host \<Rightarrow> (string \<times> jsnum) list" where
  "expected_inventory cfg sc s h =
     (case (desired_cores cfg sc s h, getStartingPort cfg sc s) of
        (Some c, JNum p) \<Rightarrow>
          if num_le c 1 then []
          else if primary_image (appName cfg) h = [] then inventory (appName cfg) h
          else map (\<lambda>i. (workerName (appName cfg) i, portOf p i)) [1..<slots_end c]
      | _ \<Rightarrow> inventory (appName cfg) h)"

text \<open>A slot's container as the host records it.\<close>

definition slot_container :: "string \<Rightarrow> string \<Rightarrow> jsnum \<Rightarrow> nat \<Rightarrow> nat \<Rightarrow> container" where
  "slot_container app img p i ident =
     \<lparr>cName = workerName app i, cId = ident, cPort = portOf p i, cImage = img, cRunning = True\<rparr>"

section \<open>Example hosts and configurations\<close>


definition host_example :: docker_host where
  "host_example =
     \<lparr>containers =
        [\<lparr>cName = ''myapp'', cId = 1, cPort = Fin 3000, cImage = ''sha256:ab12'', cRunning = True\<rparr>,
         \<lparr>cName = ''myapp-worker-1'', cId = 2, cPort = Fin 4001, cImage = ''sha256:0000'',
           cRunning = True\<rparr>,
         \<lparr>cName = ''myapp-worker-7'', cId = 3, cPort = Fin 4007, cImage = ''sha256:0000'',
           cRunning = False\<rparr>],
      nprocOutput = ''4'' @ [CHR 0x0A],
      nextId = 4\<rparr>"

definition cfg_example :: config where
  "cfg_example =
     \<lparr>multiCore = JObject [(''instances'', JStr ''auto''), (''startingPort'', JNum (Fin 3001)),
                           (''useNginx'', JBool False)],
      appName = ''myapp'',
      appServers = JObject [(''web1'', JObject []), (''worker1'', JObject [])],
      appDocker = JObject [(''image'', JStr ''zodern/meteor'')],
      appEnv = JObject [(''PORT'', JNum (Fin 3000))]\<rparr>"




text \<open>The example host, with a line of noise before the count in what \<open>nproc\<close> prints.\<close>

definition host_noisy :: docker_host where
  "host_noisy =
     host_example\<lparr>nprocOutput := ''stdin: is not a tty'' @ [CHR 0x0A] @ ''4'' @ [CHR 0x0A]\<rparr>"

text \<open>Per-server tables for web1: load balancing on, and a fixed number of instances.\<close>

definition sc_web1_nginx :: server_configs where
  "sc_web1_nginx = [(''web1'', JObject [(''useNginx'', JBool True)])]"




section \<open>Properties of the configuration resolver\<close>

lemma js_or_truthy: "truthy a \<Longrightarrow> js_or a b = a"
  by (simp add: js_or_def)

lemma js_or_falsy: "\<not> truthy a \<Longrightarrow> js_or a b = b"
  by (simp add: js_or_def)

text \<open>
  Where every value that is defined is also truthy, the \<open>||\<close> chain is the resolution
  of the specification. That covers \<open>instances\<close> and \<open>startingPort\<close> of a validated
  configuration (a positive number or "auto"), and \<open>useNginx: true\<close>.
\<close>

lemma or_chain_is_resolve_spec:
  assumes "get perServer field = JUndefined \<or> truthy (get perServer field)"
    and "get global field = JUndefined \<or> truthy (get global field)"
  shows "js_or (js_or (get perServer field) (get global field)) dflt
           = resolve_spec perServer global field dflt"
  using assms by (auto simp: js_or_def resolve_spec_def)

text \<open>
  C1 (per-server value wins over the global value, for each field independently).
  The code breaks it for \<open>useNginx\<close>: with \<open>multiCore: {useNginx: true}\<close> at the global
  scope and \<open>multiCore: {useNginx: false}\<close> for server web1, the table built by
  \<open>prepareConfig\<close> holds web1's \<open>false\<close>, and \<open>shouldUseNginx\<close> still answers \<open>true\<close>,
  where the resolution of the specification answers web1's own \<open>false\<close>: \<open>||\<close> skips a
  value that is defined and falsy.
\<close>

theorem shouldUseNginx_ignores_false_override:
  "(case prepareConfig cfg_override [] of (sc, cfg') \<Rightarrow>
      lookup_server sc ''web1'' = JObject [(''useNginx'', JBool False)] \<and>
      shouldUseNginx cfg' sc ''web1'' = JBool True \<and>
      resolve_spec (lookup_server sc ''web1'') (multiCore cfg') ''useNginx'' (JBool False)
        = JBool False)"
  by (simp add: cfg_override_def prepareConfig_def shouldUseNginx_def resolve_spec_def
      lookup_server_def has_multiCore_def js_or_def)

section \<open>Properties of validation\<close>












section \<open>Traces\<close>


lemma issued_say [simp]: "issued (say m w) = issued w"
  by (simp add: say_def)

lemma host_say [simp]: "host (say m w) = host w"
  by (simp add: say_def)

lemma console_say [simp]: "console (say m w) = console w @ [m]"
  by (simp add: say_def)

lemma runSSHCommand_eq:
  "runSSHCommand exec s c w =
     (fst (exec (host w) s c),
      w\<lparr>host := snd (exec (host w) s c),
        issued := issued w @ [(s, c, fst (exec (host w) s c))]\<rparr>)"
  by (simp add: runSSHCommand_def split: prod.splits)

lemma runSSHCommand_issued:
  "runSSHCommand exec s c w = (r, w') \<Longrightarrow> issued w' = issued w @ [(s, c, r)]"
  by (auto simp: runSSHCommand_def split: prod.splits)

lemma runSSHCommand_console:
  "runSSHCommand exec s c w = (r, w') \<Longrightarrow> console w' = console w"
  by (auto simp: runSSHCommand_def split: prod.splits)

lemma runSSHCommand_host:
  "runSSHCommand exec s c w = (r, w') \<Longrightarrow> exec (host w) s c = (r, host w')"
  by (auto simp: runSSHCommand_def split: prod.splits)

lemma worker_named_workerName [simp]: "worker_named app (workerName app j)"
  by (simp add: worker_named_def workerName_def)

lemma worker_op_runCmd [simp]: "worker_op app (runCmd s app appPort img p j)"
  by (simp add: runCmd_def)

lemma adds_refl [simp]: "adds Q w w"
  by (simp add: adds_def)

lemma adds_say [simp]: "adds Q w (say m w') = adds Q w w'"
  by (simp add: adds_def)

lemma adds_say_left [simp]: "adds Q (say m w) w' = adds Q w w'"
  by (simp add: adds_def)

lemma adds_trans: "adds Q w w1 \<Longrightarrow> adds Q w1 w2 \<Longrightarrow> adds Q w w2"
  by (auto simp: adds_def)

lemma adds_run:
  "runSSHCommand exec s c w = (r, w') \<Longrightarrow> Q (s, c, r) \<Longrightarrow> adds Q w w'"
  by (auto simp: adds_def dest: runSSHCommand_issued)

lemma adds_run_then:
  "runSSHCommand exec s c w = (r, w1) \<Longrightarrow> Q (s, c, r) \<Longrightarrow> adds Q w1 w2 \<Longrightarrow> adds Q w w2"
  by (blast intro: adds_trans adds_run)

lemma adds_all:
  "adds Q w w' \<Longrightarrow> list_all Q (issued w) \<Longrightarrow> list_all Q (issued w')"
  by (auto simp: adds_def)






















lemma not_sublist_longer: "length ys < length xs \<Longrightarrow> \<not> sublist xs ys"
  by (auto simp: sublist_def)

lemma primary_not_worker_named [simp]: "\<not> worker_named app app"
  by (auto simp: worker_named_def prefix_def)

lemma primary_not_filtered [simp]: "\<not> sublist (worker_filter app) app"
  by (rule not_sublist_longer) (simp add: worker_filter_def)
















lemma example_facts:
  "appName cfg_example = ''myapp''"
  "getAppPort cfg_example = JNum (Fin 3000)"
  "getInstanceCount cfg_example sc_web1_nginx s = JStr ''auto''"
  "getStartingPort cfg_example sc_web1_nginx s = JNum (Fin 3001)"
  "getInstanceCount cfg_example [] s = JStr ''auto''"
  "getStartingPort cfg_example [] s = JNum (Fin 3001)"
  "truthy (appDocker cfg_example)"
  "shouldUseNginx cfg_example [] s = JBool False"
  "shouldUseNginx cfg_example sc_web1_nginx ''web1'' = JBool True"
  "shouldUseNginx cfg_example sc_web1_nginx ''worker1'' = JBool False"
  by (simp_all add: getInstanceCount_def getStartingPort_def shouldUseNginx_def lookup_server_def
      js_or_def sc_web1_nginx_def cfg_example_def getAppPort_def)



section \<open>Restart\<close>




section \<open>Core-count detection\<close>

text \<open>When the probe throws, the resolver returns 2 and logs the warning; it cannot reject.\<close>

lemma detectCores_throws:
  "exec (host w) s Nproc = (Throws e, h') \<Longrightarrow>
   fst (detectCores exec s w) = Fin 2 \<and>
   console (snd (detectCores exec s w)) = console w @ [LogCoresFallback s]"
  by (simp add: detectCores_def runSSHCommand_def say_def)

text \<open>With NaN as the core count the creation loop does nothing.\<close>

lemma workerLoop_NaN: "workerLoop exec s app appPort img p NaN i w = w"
  by (subst workerLoop.simps) simp

lemma not_single_core_NaN: "\<not> num_le NaN 1"
  by simp

text \<open>
  C2. The code breaks it for malformed output. When \<open>nproc\<close> returns without an error
  and what it printed does not start with a number, \<open>parseInt\<close> gives NaN and nothing is
  thrown: \<open>detectCores\<close> returns NaN, not 2, and logs no warning.
\<close>

theorem detectCores_malformed_output:
  "docker_exec host_noisy ''worker1'' Nproc
     = (Output (''stdin: is not a tty'' @ [CHR 0x0A] @ ''4'' @ [CHR 0x0A]), host_noisy)
   \<and> fst (detectCores docker_exec ''worker1'' (fresh host_noisy)) = NaN
   \<and> console (snd (detectCores docker_exec ''worker1'' (fresh host_noisy))) = []"
  by code_simp

section \<open>Traces of the cleanup blocks\<close>









lemma returned_last: "is_output r \<Longrightarrow> returned c (l @ [(s, c, r)])"
  by (simp add: returned_def)

lemma returned_Cons: "returned c tr \<Longrightarrow> returned c (x # tr)"
  by (simp add: returned_def)

lemma returned_here: "is_output r \<Longrightarrow> returned c ((s, c, r) # tr)"
  by (simp add: returned_def)





section \<open>The bounded fallback\<close>



section \<open>The slots created\<close>

lemma created_say [simp]: "created (say m w) = created w"
  by (simp add: created_def commands_def)






lemma no_creation_simps [simp]:
  "\<not> is_creation (DockerStop n)" "\<not> is_creation (DockerRm n)"
  by simp_all







section \<open>Cleanup before creation\<close>

lemma no_removal_simps [simp]:
  "\<not> is_removal (runCmd s app appPort img p i)"
  by (simp add: runCmd_def)










lemma is_creation_runCmd [simp]: "is_creation (runCmd s app appPort img p i)"
  by (simp add: runCmd_def)



section \<open>Idempotence on the container host\<close>

subsection \<open>Decimal rendering is injective\<close>

lemma digit_value_char_of: "n < 10 \<Longrightarrow> digit_value (char_of (48 + n)) = n"
  by (simp add: digit_value_def is_digit_def)

lemma digits_value_snoc:
  "digits_value radix (ds @ [c]) = digits_value radix ds * radix + digit_value c"
  by (simp add: digits_value_def)

lemma digits_value_show_nat: "digits_value 10 (show_nat n) = n"
proof (induction n rule: show_nat.induct)
  case (1 n)
  show ?case
  proof (cases "n < 10")
    case True
    then show ?thesis
      by (subst show_nat.simps) (simp add: digits_value_def digit_value_char_of)
  next
    case False
    have "digit_value (char_of (48 + n mod 10)) = n mod 10"
      by (rule digit_value_char_of) simp
    then show ?thesis
      using False "1.IH" [OF False]
      by (subst show_nat.simps) (simp add: digits_value_snoc)
  qed
qed

lemma show_nat_inject: "show_nat n = show_nat m \<Longrightarrow> n = m"
  by (metis digits_value_show_nat)

lemma workerName_inject: "workerName app i = workerName app j \<Longrightarrow> i = j"
  by (simp add: workerName_def show_nat_inject)

lemma workerName_matches: "sublist (worker_filter app) (workerName app i)"
  by (simp add: worker_filter_def workerName_def)

subsection \<open>Trimming\<close>

lemma trim_Nil [simp]: "trim [] = []"
  by (simp add: trim_def)

lemma trim_nonblank:
  assumes "c \<in> set s" and "\<not> is_space c"
  shows "trim s \<noteq> []"
proof
  assume "trim s = []"
  then have "dropWhile is_space (rev (dropWhile is_space s)) = []"
    by (simp add: trim_def)
  then have a: "\<forall>x \<in> set (dropWhile is_space s). is_space x"
    by simp
  have "dropWhile is_space s = []"
  proof (rule ccontr)
    assume n: "dropWhile is_space s \<noteq> []"
    then have "\<not> is_space (hd (dropWhile is_space s))"
      by (rule hd_dropWhile)
    moreover have "hd (dropWhile is_space s) \<in> set (dropWhile is_space s)"
      using n by simp
    ultimately show False
      using a by blast
  qed
  then show False
    using assms by simp
qed

lemma not_space_c: "\<not> is_space (CHR ''c'')"
  by (simp add: is_space_def)

lemma id_lines_nonblank: "cs \<noteq> [] \<Longrightarrow> trim (id_lines cs) \<noteq> []"
proof -
  assume "cs \<noteq> []"
  then obtain c cs' where "cs = c # cs'"
    by (cases cs) auto
  then have "CHR ''c'' \<in> set (id_lines cs)"
    by (simp add: id_lines_def)
  then show ?thesis
    using not_space_c by (rule trim_nonblank)
qed

subsection \<open>The operations on the container host\<close>

lemma matching_running [simp]: "matching f (c\<lparr>cRunning := b\<rparr>) = matching f c"
  by (simp add: matching_def)

lemma stop_then_remove:
  "filter (\<lambda>c. matching f c \<longrightarrow> cRunning c)
     (map (\<lambda>c. if matching f c then c\<lparr>cRunning := False\<rparr> else c) cs)
   = filter (\<lambda>c. \<not> matching f c) cs"
  by (induction cs) simp_all

lemma stopped_none_running:
  "\<not> list_ex (\<lambda>c. matching f c \<and> cRunning c)
     (map (\<lambda>c. if matching f c then c\<lparr>cRunning := False\<rparr> else c) cs)"
  by (induction cs) simp_all

lemma stopped_still_listed:
  "list_ex (matching f) (map (\<lambda>c. if matching f c then c\<lparr>cRunning := False\<rparr> else c) cs)
     = list_ex (matching f) cs"
  by (induction cs) simp_all

lemma purge_nothing:
  "\<not> list_ex (matching (worker_filter app)) (containers h) \<Longrightarrow> purge app h = h"
  by (simp add: purge_def others_def list_ex_iff filter_id_conv)

lemma docker_stop_all:
  assumes "list_ex (matching f) (containers h)"
  shows "docker_exec h s (DockerStopFiltered True f tol) = (Output [], stop_where (matching f) h)"
proof -
  have "(\<lambda>c. matching f c \<and> (True \<or> cRunning c)) = matching f"
    by auto
  then show ?thesis
    using assms by simp
qed

lemma docker_rm_stopped:
  assumes "list_ex (matching (worker_filter app)) (containers h)"
  shows "docker_exec (stop_where (matching (worker_filter app)) h) s
           (DockerRmFiltered (worker_filter app) tol) = (Output [], purge app h)"
proof -
  let ?f = "worker_filter app"
  let ?h = "stop_where (matching ?f) h"
  have a: "list_ex (matching ?f) (containers ?h)"
    using assms by (simp add: stop_where_def stopped_still_listed)
  have b: "\<not> list_ex (\<lambda>c. matching ?f c \<and> cRunning c) (containers ?h)"
    by (simp add: stop_where_def stopped_none_running)
  have c: "rm_where (matching ?f) ?h = purge app h"
    by (simp add: rm_where_def stop_where_def purge_def others_def stop_then_remove)
  show ?thesis
    using a b c by simp
qed

lemma docker_query:
  "docker_exec h s (DockerPsIds True f) = (Output (id_lines (filter (matching f) (containers h))), h)"
  by simp

lemma listed_nonblank:
  "trim (id_lines (filter (matching f) cs)) \<noteq> [] \<longleftrightarrow> list_ex (matching f) cs"
proof (cases "filter (matching f) cs = []")
  case True
  then show ?thesis
    by (simp add: id_lines_def list_ex_iff filter_empty_conv)
next
  case False
  then show ?thesis
    using id_lines_nonblank [OF False] by (auto simp: list_ex_iff filter_empty_conv)
qed

lemma docker_cleanupMulti:
  "fst (cleanupMulti docker_exec s app w) = None
   \<and> host (snd (cleanupMulti docker_exec s app w)) = purge app (host w)"
proof (cases "list_ex (matching (worker_filter app)) (containers (host w))")
  case False
  then show ?thesis
    by (simp add: cleanupMulti_def runSSHCommand_def listed_nonblank purge_nothing
        del: docker_exec.simps add: docker_query)
next
  case True
  show ?thesis
    using True
    by (simp add: cleanupMulti_def runSSHCommand_def listed_nonblank docker_query
        docker_stop_all [OF True] docker_rm_stopped [OF True] del: docker_exec.simps)
qed

lemma docker_cleanupSingle:
  "fst (cleanupSingle docker_exec s app w) = None
   \<and> host (snd (cleanupSingle docker_exec s app w)) = purge app (host w)"
proof (cases "list_ex (matching (worker_filter app)) (containers (host w))")
  case False
  then show ?thesis
    by (simp add: cleanupSingle_def runSSHCommand_def listed_nonblank purge_nothing
        del: docker_exec.simps add: docker_query)
next
  case True
  show ?thesis
    using True
    by (simp add: cleanupSingle_def runSSHCommand_def listed_nonblank docker_query
        docker_stop_all [OF True] docker_rm_stopped [OF True] del: docker_exec.simps)
qed

lemma docker_startWorker:
  assumes "\<not> list_ex (\<lambda>c. cName c = workerName app i) (containers (host w))"
  shows "host (startWorker docker_exec s app appPort img p i w)
     = (host w)\<lparr>containers := containers (host w) @ [slot_container app img p i (nextId (host w))],
                 nextId := Suc (nextId (host w))\<rparr>"
  using assms
  by (simp add: startWorker_def Let_def runSSHCommand_def runCmd_def slot_container_def
      split: if_split)

lemma docker_startWorker_nproc:
  "nprocOutput (host (startWorker docker_exec s app appPort img p i w)) = nprocOutput (host w)"
  by (simp add: startWorker_def Let_def runSSHCommand_def runCmd_def split: if_split)

text \<open>
  The creation loop on a host where no slot's name is taken: it appends the containers of
  the slots \<open>i\<close> to \<open>n - 1\<close>.
\<close>

lemma docker_workerLoop:
  assumes "\<And>j. i \<le> j \<Longrightarrow> \<not> list_ex (\<lambda>c. cName c = workerName app j) (containers (host w))"
  shows "\<exists>news. containers (host (workerLoop docker_exec s app appPort img p (Fin x) i w))
              = containers (host w) @ news
          \<and> map (\<lambda>c. (cName c, cPort c)) news
              = map (\<lambda>j. (workerName app j, portOf p j)) [i..<nat \<lceil>x\<rceil>]
          \<and> nprocOutput (host (workerLoop docker_exec s app appPort img p (Fin x) i w))
              = nprocOutput (host w)"
  using assms
proof (induction docker_exec s app appPort img p "Fin x" i w rule: workerLoop.induct)
  case (1 s app appPort img p i w)
  show ?case
  proof (cases "num_gt (Fin x) (of_nat i)")
    case False
    then have "\<not> i < nat \<lceil>x\<rceil>"
      by (simp add: less_ceiling_iff) linarith
    then show ?thesis
      using False by (subst (1 2) workerLoop.simps) simp
  next
    case True
    then have "rat_of_int (int i) < x"
      by simp
    then have "int i < \<lceil>x\<rceil>"
      by (simp add: less_ceiling_iff)
    then have lt: "i < nat \<lceil>x\<rceil>"
      by linarith
    let ?w1 = "startWorker docker_exec s app appPort img p i w"
    let ?new = "slot_container app img p i (nextId (host w))"
    have h1: "host ?w1 = (host w)\<lparr>containers := containers (host w) @ [?new],
                 nextId := Suc (nextId (host w))\<rparr>"
      by (rule docker_startWorker) (simp add: "1.prems")
    have free: "\<not> list_ex (\<lambda>c. cName c = workerName app j) (containers (host ?w1))"
      if "Suc i \<le> j" for j
    proof -
      have "workerName app i \<noteq> workerName app j"
        using that workerName_inject [of app i j] by auto
      then show ?thesis
        using "1.prems" [of j] that by (simp add: h1 slot_container_def)
    qed
    obtain news where n: "containers (host (workerLoop docker_exec s app appPort img p (Fin x) (Suc i) ?w1))
              = containers (host ?w1) @ news"
      "map (\<lambda>c. (cName c, cPort c)) news
              = map (\<lambda>j. (workerName app j, portOf p j)) [Suc i..<nat \<lceil>x\<rceil>]"
      "nprocOutput (host (workerLoop docker_exec s app appPort img p (Fin x) (Suc i) ?w1))
              = nprocOutput (host ?w1)"
      using "1.hyps" [OF True free] by blast
    have e: "workerLoop docker_exec s app appPort img p (Fin x) i w
               = workerLoop docker_exec s app appPort img p (Fin x) (Suc i) ?w1"
      using True by (subst workerLoop.simps) simp
    show ?thesis
      unfolding e
      using n lt
      by (intro exI [of _ "?new # news"])
        (simp add: h1 upt_conv_Cons slot_container_def)
  qed
qed

lemma find_filter:
  "(\<And>x. P x \<Longrightarrow> Q x) \<Longrightarrow> find P (filter Q xs) = find P xs"
  by (induction xs) auto

lemma primary_not_matching: "cName c = app \<Longrightarrow> \<not> matching (worker_filter app) c"
  by (simp add: matching_def)

lemma primary_image_others:
  "others app h' = others app h \<Longrightarrow> primary_image app h' = primary_image app h"
proof -
  assume a: "others app h' = others app h"
  have "find (\<lambda>c. cName c = app) (containers k) = find (\<lambda>c. cName c = app) (others app k)" for k
    unfolding others_def
    by (rule find_filter [symmetric]) (simp add: primary_not_matching)
  then show ?thesis
    using a by (simp add: primary_image_def)
qed

lemma others_purge [simp]: "others app (purge app h) = others app h"
  by (simp add: others_def purge_def)

lemma inventory_purge [simp]: "inventory app (purge app h) = []"
  by (simp add: inventory_def purge_def others_def)

lemma nproc_purge [simp]: "nprocOutput (purge app h) = nprocOutput h"
  by (simp add: purge_def)

lemma others_free:
  "\<not> list_ex (\<lambda>c. cName c = workerName app j) (containers (purge app h))"
  by (auto simp: purge_def others_def list_ex_iff matching_def workerName_matches)

lemma others_containers:
  "containers h' = cs \<Longrightarrow> others app h' = filter (\<lambda>c. \<not> matching (worker_filter app) c) cs"
  by (simp add: others_def)

lemma inventory_containers:
  "containers h' = cs \<Longrightarrow>
   inventory app h' = map (\<lambda>c. (cName c, cPort c)) (filter (matching (worker_filter app)) cs)"
  by (simp add: inventory_def)

text \<open>What the branch \<open>cores > 1\<close> leaves on the host.\<close>

lemma docker_startWorkers:
  "nprocOutput (host (startWorkers docker_exec s app appPort p cores w)) = nprocOutput (host w)
   \<and> others app (host (startWorkers docker_exec s app appPort p cores w)) = others app (host w)
   \<and> inventory app (host (startWorkers docker_exec s app appPort p cores w))
       = (if primary_image app (host w) = [] then inventory app (host w)
          else map (\<lambda>i. (workerName app i, portOf p i)) [1..<slots_end cores])"
proof (cases "find (\<lambda>c. cName c = app) (containers (host w))")
  case None
  then show ?thesis
    by (simp add: startWorkers_def runSSHCommand_def primary_image_def)
next
  case (Some c)
  let ?img = "trim (cImage c @ [CHR 0x0A])"
  have pi: "primary_image app (host w) = ?img"
    using Some by (simp add: primary_image_def)
  show ?thesis
  proof (cases "?img = []")
    case True
    then show ?thesis
      using Some pi by (simp add: startWorkers_def runSSHCommand_def)
  next
    case False
    let ?w1 = "say (LogUsingImage s ?img)
                 (w\<lparr>issued := issued w @ [(s, DockerInspectImage app, Output (cImage c @ [CHR 0x0A]))]\<rparr>)"
    obtain w2 where k: "cleanupMulti docker_exec s app ?w1 = (None, w2)"
      and h2: "host w2 = purge app (host w)"
      using docker_cleanupMulti [of s app ?w1]
      by (cases "cleanupMulti docker_exec s app ?w1") simp
    let ?w3 = "workerLoop docker_exec s app appPort ?img p cores 1 (say (LogStarting s cores) w2)"
    have loop: "\<exists>news. containers (host ?w3) = others app (host w) @ news
          \<and> map (\<lambda>c. (cName c, cPort c)) news
              = map (\<lambda>j. (workerName app j, portOf p j)) [1..<slots_end cores]
          \<and> nprocOutput (host ?w3) = nprocOutput (host w)"
    proof (cases cores)
      case NaN
      then show ?thesis
        by (simp add: workerLoop_NaN h2 purge_def)
    next
      case (Fin x)
      have "\<And>j. 1 \<le> j \<Longrightarrow> \<not> list_ex (\<lambda>c. cName c = workerName app j)
               (containers (host (say (LogStarting s cores) w2)))"
        by (simp add: h2 others_free)
      from docker_workerLoop [where s = s and appPort = appPort and img = "?img" and p = p
          and x = x, OF this]
      show ?thesis
        using Fin by (simp add: h2 purge_def)
    qed
    then obtain news where n: "containers (host ?w3) = others app (host w) @ news"
      "map (\<lambda>c. (cName c, cPort c)) news
              = map (\<lambda>j. (workerName app j, portOf p j)) [1..<slots_end cores]"
      "nprocOutput (host ?w3) = nprocOutput (host w)"
      by blast
    have names: "map cName news = map (workerName app) [1..<slots_end cores]"
      using arg_cong [OF n(2), of "map fst"] by (simp add: comp_def)
    have m: "matching (worker_filter app) c'" if "c' \<in> set news" for c'
    proof -
      have "cName c' \<in> set (map cName news)"
        using that by simp
      then show ?thesis
        unfolding names by (auto simp: matching_def workerName_matches)
    qed
    have f1: "filter (\<lambda>c. \<not> matching (worker_filter app) c) news = []"
      using m by (simp add: filter_empty_conv)
    have f2: "filter (matching (worker_filter app)) news = news"
      using m by (simp add: filter_id_conv)
    have f3: "filter (matching (worker_filter app)) (others app (host w)) = []"
      by (simp add: others_def filter_empty_conv)
    have f4: "filter (\<lambda>c. \<not> matching (worker_filter app) c) (others app (host w)) = others app (host w)"
      by (simp add: others_def)
    have g: "host (startWorkers docker_exec s app appPort p cores w) = host ?w3"
      using Some False k
      by (simp add: startWorkers_def runSSHCommand_def Let_def split: if_split)
    have o: "others app (host ?w3) = others app (host w)"
      using others_containers [OF n(1), of app] f1 f4 by simp
    have v: "inventory app (host ?w3)
               = map (\<lambda>j. (workerName app j, portOf p j)) [1..<slots_end cores]"
      using inventory_containers [OF n(1), of app] f2 f3 n(2) by simp
    show ?thesis
      unfolding g using pi False n(3) o v by simp
  qed
qed

lemma docker_resolveCores:
  "host (snd (resolveCores docker_exec s ic w)) = host w
   \<and> fst (resolveCores docker_exec s ic w)
       = (if ic = JStr ''auto'' then JNum (parseInt (trim (nprocOutput (host w)))) else ic)"
  by (simp add: resolveCores_def detectCores_def runSSHCommand_def)

text \<open>What one server's reconciliation leaves on the host.\<close>

lemma docker_pass:
  "nprocOutput (host (snd (startWorkerServer docker_exec cfg sc s w))) = nprocOutput (host w)
   \<and> others (appName cfg) (host (snd (startWorkerServer docker_exec cfg sc s w)))
       = others (appName cfg) (host w)
   \<and> inventory (appName cfg) (host (snd (startWorkerServer docker_exec cfg sc s w)))
       = expected_inventory cfg sc s (host w)"
proof -
  let ?ic = "getInstanceCount cfg sc s"
  obtain v w0 where r: "resolveCores docker_exec s ?ic w = (v, w0)"
    by (cases "resolveCores docker_exec s ?ic w")
  have h0: "host w0 = host w"
    and v: "v = (if ?ic = JStr ''auto'' then JNum (parseInt (trim (nprocOutput (host w)))) else ?ic)"
    using docker_resolveCores [of s ?ic w] r by simp_all
  show ?thesis
  proof (cases v)
    case (JNum c)
    then have d: "desired_cores cfg sc s (host w) = Some c"
      using v by (auto simp: desired_cores_def split: if_splits jsval.splits)
    show ?thesis
    proof (cases "getStartingPort cfg sc s")
      case p: (JNum p)
      show ?thesis
      proof (cases "num_le c 1")
        case True
        obtain w1 where k: "cleanupSingle docker_exec s (appName cfg) (say (LogSingleCore s) w0) = (None, w1)"
          and h1: "host w1 = purge (appName cfg) (host w)"
          using docker_cleanupSingle [of s "appName cfg" "say (LogSingleCore s) w0"] h0
          by (cases "cleanupSingle docker_exec s (appName cfg) (say (LogSingleCore s) w0)") simp
        show ?thesis
          using r JNum p True k h1 d
          by (simp add: startWorkerServer_def expected_inventory_def)
      next
        case False
        show ?thesis
          using r JNum p False d h0
            docker_startWorkers [of s "appName cfg" "getAppPort cfg" p c w0]
          by (simp add: startWorkerServer_def expected_inventory_def)
      qed
    qed (use r JNum h0 d in \<open>simp_all add: startWorkerServer_def expected_inventory_def\<close>)
  next
    case JUndefined
    then have "desired_cores cfg sc s (host w) = None"
      using v by (auto simp: desired_cores_def split: if_splits jsval.splits)
    then show ?thesis
      using r JUndefined h0 by (simp add: startWorkerServer_def expected_inventory_def)
  next
    case JNull
    then have "desired_cores cfg sc s (host w) = None"
      using v by (auto simp: desired_cores_def split: if_splits jsval.splits)
    then show ?thesis
      using r JNull h0 by (simp add: startWorkerServer_def expected_inventory_def)
  next
    case (JBool b)
    then have "desired_cores cfg sc s (host w) = None"
      using v by (auto simp: desired_cores_def split: if_splits jsval.splits)
    then show ?thesis
      using r JBool h0 by (simp add: startWorkerServer_def expected_inventory_def)
  next
    case (JStr a)
    then have "desired_cores cfg sc s (host w) = None"
      using v by (auto simp: desired_cores_def split: if_splits jsval.splits)
    then show ?thesis
      using r JStr h0 by (simp add: startWorkerServer_def expected_inventory_def)
  next
    case (JObject fs)
    then have "desired_cores cfg sc s (host w) = None"
      using v by (auto simp: desired_cores_def split: if_splits jsval.splits)
    then show ?thesis
      using r JObject h0 by (simp add: startWorkerServer_def expected_inventory_def)
  qed
qed

lemma expected_inventory_stable:
  assumes "nprocOutput h' = nprocOutput h"
    and "others (appName cfg) h' = others (appName cfg) h"
    and "inventory (appName cfg) h' = expected_inventory cfg sc s h"
  shows "expected_inventory cfg sc s h' = inventory (appName cfg) h'"
proof -
  have d: "desired_cores cfg sc s h' = desired_cores cfg sc s h"
    unfolding desired_cores_def assms(1) by (rule refl)
  have i: "primary_image (appName cfg) h' = primary_image (appName cfg) h"
    using assms(2) by (rule primary_image_others)
  show ?thesis
    using assms(3) unfolding expected_inventory_def d i
    by (auto split: option.splits jsval.splits if_splits)
qed

text \<open>
  C6. On the container host, for every configuration, server and initial state: a second
  reconciliation of a server, run on the host the first one left, leaves the same replica
  inventory (the same names on the same ports) as the first.
\<close>

theorem reconciliation_idempotent:
  "inventory (appName cfg)
     (host (snd (startWorkerServer docker_exec cfg sc s
        (fresh (host (snd (startWorkerServer docker_exec cfg sc s (fresh h))))))))
   = inventory (appName cfg) (host (snd (startWorkerServer docker_exec cfg sc s (fresh h))))"
proof -
  let ?h1 = "host (snd (startWorkerServer docker_exec cfg sc s (fresh h)))"
  have a: "nprocOutput ?h1 = nprocOutput h"
    "others (appName cfg) ?h1 = others (appName cfg) h"
    "inventory (appName cfg) ?h1 = expected_inventory cfg sc s h"
    using docker_pass [of cfg sc s "fresh h"] by (simp_all add: fresh_def)
  have "inventory (appName cfg) (host (snd (startWorkerServer docker_exec cfg sc s (fresh ?h1))))
          = expected_inventory cfg sc s ?h1"
    using docker_pass [of cfg sc s "fresh ?h1"] by (simp add: fresh_def)
  also have "\<dots> = inventory (appName cfg) ?h1"
    using a by (rule expected_inventory_stable)
  finally show ?thesis .
qed

text \<open>The example host after one pass with four cores: the three slots of the scenario.\<close>

lemma reconciliation_example:
  "inventory ''myapp''
     (host (snd (startWorkerServer docker_exec cfg_example [] ''web1'' (fresh host_example))))
   = [(''myapp-worker-1'', Fin 3001), (''myapp-worker-2'', Fin 3002), (''myapp-worker-3'', Fin 3003)]"
proof -
  have "expected_inventory cfg_example [] ''web1'' host_example
     = [(''myapp-worker-1'', Fin 3001), (''myapp-worker-2'', Fin 3002), (''myapp-worker-3'', Fin 3003)]"
    by code_simp
  then show ?thesis
    using docker_pass [of cfg_example "[]" "''web1''" "fresh host_example"]
    by (simp add: example_facts fresh_def)
qed

end
